theory Spec2Isabelle
  imports Complex_Main
begin

section \<open>Strings\<close>

text \<open>
  Python strings are modelled as \<^typ>\<open>string\<close>. Case folding is the ASCII one
  (\<open>A\<close>..\<open>Z\<close> against \<open>a\<close>..\<open>z\<close>); every other character is left as it is.
  A character outside ASCII is written as its UTF-8 bytes.
\<close>

definition lower_char :: "char \<Rightarrow> char" where
  "lower_char ch =
     (let n = (of_char ch :: nat) in if 65 \<le> n \<and> n \<le> 90 then char_of (n + 32) else ch)"

definition upper_char :: "char \<Rightarrow> char" where
  "upper_char ch =
     (let n = (of_char ch :: nat) in if 97 \<le> n \<and> n \<le> 122 then char_of (n - 32) else ch)"

definition lower :: "string \<Rightarrow> string" where
  "lower s = map lower_char s"

definition upper :: "string \<Rightarrow> string" where
  "upper s = map upper_char s"

text \<open>\<open>starts_with s t\<close>: the text \<open>t\<close> begins with \<open>s\<close>.\<close>

fun starts_with :: "string \<Rightarrow> string \<Rightarrow> bool" where
  "starts_with [] t = True"
| "starts_with (a # s) [] = False"
| "starts_with (a # s) (b # t) = (a = b \<and> starts_with s t)"

text \<open>Python's \<open>s in t\<close> on strings: \<open>s\<close> occurs in \<open>t\<close> as a contiguous run.\<close>

fun contains :: "string \<Rightarrow> string \<Rightarrow> bool" where
  "contains s [] = (s = [])"
| "contains s (b # t) = (starts_with s (b # t) \<or> contains s t)"

section \<open>The training script\<close>

subsection \<open>Column detection\<close>

definition COMMON_VIB :: "string list" where
  "COMMON_VIB = [''vibration'', ''vib'', ''vibration_mm_s'']"

definition COMMON_TEMP :: "string list" where
  "COMMON_TEMP = [''temperature'', ''temp'', ''temp_c'']"

definition COMMON_CURR :: "string list" where
  "COMMON_CURR = [''current'', ''motor_current'', ''amps'']"

definition COMMON_LABEL :: "string list" where
  "COMMON_LABEL = [''label'', ''status'', ''health'', ''class'']"

text \<open>
  The inner loop \<open>for col in cols: if test(c, col): return col\<close>, for one candidate
  \<open>c\<close>; \<open>None\<close> when the loop ends without returning.
\<close>

fun scan_cols :: "(string \<Rightarrow> string \<Rightarrow> bool) \<Rightarrow> string \<Rightarrow> string list \<Rightarrow> string option" where
  "scan_cols test c [] = None"
| "scan_cols test c (col # cols) = (if test c col then Some col else scan_cols test c cols)"

text \<open>The outer loop \<open>for c in candidates\<close> around it: the first return ends both loops.\<close>

fun scan_candidates :: "(string \<Rightarrow> string \<Rightarrow> bool) \<Rightarrow> string list \<Rightarrow> string list \<Rightarrow> string option" where
  "scan_candidates test cols [] = None"
| "scan_candidates test cols (c # cs) =
     (case scan_cols test c cols of
        Some col \<Rightarrow> Some col
      | None \<Rightarrow> scan_candidates test cols cs)"

definition exact_match :: "string \<Rightarrow> string \<Rightarrow> bool" where
  "exact_match c col = (lower c = lower col)"

definition substring_match :: "string \<Rightarrow> string \<Rightarrow> bool" where
  "substring_match c col = contains (lower c) (lower col)"

definition detect_column :: "string list \<Rightarrow> string list \<Rightarrow> string option" where
  "detect_column cols candidates =
     (case scan_candidates exact_match cols candidates of
        Some col \<Rightarrow> Some col
      | None \<Rightarrow> scan_candidates substring_match cols candidates)"

text \<open>
  The column detector as the specification words it: in each pass the first candidate, in
  the given order, that matches any column is the winner, and the answer is the first
  column, in column order, that this candidate matches. Pass 1 matches by equality up to
  case, pass 2 by containment up to case, and pass 2 only runs when pass 1 found nothing.
\<close>

definition spec_pass :: "(string \<Rightarrow> string \<Rightarrow> bool) \<Rightarrow> string list \<Rightarrow> string list \<Rightarrow> string option" where
  "spec_pass test cols candidates =
     (case find (\<lambda>c. list_ex (test c) cols) candidates of
        None \<Rightarrow> None
      | Some c \<Rightarrow> find (test c) cols)"

definition spec_detect_column :: "string list \<Rightarrow> string list \<Rightarrow> string option" where
  "spec_detect_column cols candidates =
     (case spec_pass (\<lambda>c col. lower c = lower col) cols candidates of
        Some col \<Rightarrow> Some col
      | None \<Rightarrow> spec_pass (\<lambda>c col. \<exists>before after. lower col = before @ lower c @ after)
                  cols candidates)"

subsection \<open>Numeric cells\<close>

text \<open>
  A numeric cell of the table is a double: a finite value (the real number it denotes), an
  infinity, or NaN, which is also how a missing cell is held. A comparison of a double with
  an integer constant is exact, and false on NaN.
\<close>

datatype pyfloat = Finite real | PosInf | NegInf | NaN

fun gt :: "pyfloat \<Rightarrow> real \<Rightarrow> bool" where
  "gt (Finite x) k = (x > k)"
| "gt PosInf k = True"
| "gt NegInf k = False"
| "gt NaN k = False"

subsection \<open>Label synthesis\<close>

record features =
  vibration :: pyfloat
  temperature :: pyfloat
  current :: pyfloat

text \<open>The body of the loop over the rows, up to the value that is appended to \<open>y\<close>.\<close>

definition row_score :: "features \<Rightarrow> int" where
  "row_score r =
     (let score = 0;
          score = (if gt (vibration r) 6 then score + 1 else score);
          score = (if gt (temperature r) 70 then score + 1 else score);
          score = (if gt (current r) 12 then score + 1 else score)
      in score)"

definition row_label :: "features \<Rightarrow> string" where
  "row_label r =
     (let score = row_score r
      in if score \<ge> 2 then ''CRITICAL''
         else if score = 1 then ''WARNING''
         else ''HEALTHY'')"

text \<open>The loop \<open>for _, r in X.iterrows()\<close>, with the list \<open>y\<close> it appends to.\<close>

fun synth_loop :: "features list \<Rightarrow> string list \<Rightarrow> string list" where
  "synth_loop [] y = y"
| "synth_loop (r # rs) y = synth_loop rs (y @ [row_label r])"

definition synthesize_labels :: "features list \<Rightarrow> string list" where
  "synthesize_labels X = synth_loop X []"

subsection \<open>Loading and preparing the table\<close>

text \<open>
  The table that \<open>pd.read_csv\<close> returns: the column names in file order, and the rows.
  A row gives a cell for each column name. A cell is held with the two readings the script
  takes of it: \<open>num\<close>, its value in a numeric column (NaN when the cell is missing), and
  \<open>str\<close>, the text that \<open>astype(str)\<close> gives for it.
\<close>

record cell =
  num :: pyfloat
  str :: string

record dataframe =
  columns :: "string list"
  rows :: "(string \<Rightarrow> cell) list"

datatype error = ValueError string | KeyError int

text \<open>
  \<open>X.fillna(X.median())\<close>: a NaN cell takes its column's median. The median itself is
  the library's (a rounded floating-point mean of the two middle values), so it is a
  parameter \<open>median\<close> of the model, from a column's values to a double.
\<close>

definition fill :: "pyfloat \<Rightarrow> pyfloat \<Rightarrow> pyfloat" where
  "fill m x = (case x of NaN \<Rightarrow> m | _ \<Rightarrow> x)"

definition fillna_median :: "(pyfloat list \<Rightarrow> pyfloat) \<Rightarrow> features list \<Rightarrow> features list" where
  "fillna_median median X =
     (let mv = median (map vibration X);
          mt = median (map temperature X);
          mc = median (map current X)
      in map (\<lambda>r. \<lparr>vibration = fill mv (vibration r),
                     temperature = fill mt (temperature r),
                     current = fill mc (current r)\<rparr>) X)"

text \<open>\<open>y.replace({...})\<close> on one value: a value equal to a key is replaced.\<close>

definition synonyms :: "(string \<times> string) list" where
  "synonyms = [(''OK'', ''HEALTHY''), (''GOOD'', ''HEALTHY''),
               (''BAD'', ''CRITICAL''), (''FAIL'', ''CRITICAL'')]"

definition replace_synonyms :: "string \<Rightarrow> string" where
  "replace_synonyms s = (case map_of synonyms s of Some t \<Rightarrow> t | None \<Rightarrow> s)"

definition load_and_prepare ::
    "(pyfloat list \<Rightarrow> pyfloat) \<Rightarrow> dataframe \<Rightarrow> error + (features list \<times> string list)" where
  "load_and_prepare median df =
     (let cols = columns df;
          vib = detect_column cols COMMON_VIB;
          temp = detect_column cols COMMON_TEMP;
          curr = detect_column cols COMMON_CURR;
          label = detect_column cols COMMON_LABEL
      in case (vib, temp, curr) of
           (Some vib_col, Some temp_col, Some curr_col) \<Rightarrow>
             (let X = map (\<lambda>r. \<lparr>vibration = num (r vib_col),
                                  temperature = num (r temp_col),
                                  current = num (r curr_col)\<rparr>) (rows df);
                  X = fillna_median median X;
                  y = (case label of
                         None \<Rightarrow> synthesize_labels X
                       | Some label_col \<Rightarrow>
                           map (\<lambda>r. replace_synonyms (upper (str (r label_col)))) (rows df))
              in Inr (X, y))
         | _ \<Rightarrow> Inl (ValueError ''Could not detect vibration/temp/current columns''))"

subsection \<open>Training, up to the encoded labels\<close>

text \<open>
  A Python \<open>dict\<close> literal is held as its items in order; \<open>map_of\<close> looks a key up.
  \<open>y.map(label_map)\<close> looks every label up and leaves a missing value (\<open>None\<close> here,
  NaN in the series) where the label is not a key. What follows in \<open>train\<close> (the split,
  the scaler, the forest, the dumps) is the libraries' work on \<open>X\<close> and \<open>y_enc\<close>.
\<close>

definition label_map :: "(string \<times> int) list" where
  "label_map = [(''HEALTHY'', 0), (''WARNING'', 1), (''CRITICAL'', 2)]"

definition encode_labels :: "string list \<Rightarrow> int option list" where
  "encode_labels y = map (map_of label_map) y"

definition train_prepare ::
    "(pyfloat list \<Rightarrow> pyfloat) \<Rightarrow> dataframe \<Rightarrow> error + (features list \<times> int option list)" where
  "train_prepare median df =
     (case load_and_prepare median df of
        Inl e \<Rightarrow> Inl e
      | Inr (X, y) \<Rightarrow> Inr (X, encode_labels y))"

section \<open>The dashboard script\<close>

subsection \<open>The loaded artifacts\<close>

text \<open>
  The scaler and the classifier are objects of the library: \<open>scaler.transform\<close> and
  \<open>model.predict_proba\<close> are functions from a row of numbers to a row of numbers. The
  label map is read from the metadata file, whatever that file holds.
\<close>

record artifacts =
  scaler_transform :: "real list \<Rightarrow> real list"
  predict_proba :: "real list \<Rightarrow> real list"
  meta_label_map :: "(string \<times> int) list"

text \<open>
  \<open>{v: k for k, v in label_map.items()}\<close>: the items are visited in order and an
  index met again takes the later name.
\<close>

definition inv_label_map :: "(string \<times> int) list \<Rightarrow> (int \<rightharpoonup> string)" where
  "inv_label_map lm = fold (\<lambda>(k, v) d. d(v \<mapsto> k)) lm Map.empty"

subsection \<open>The prediction\<close>

text \<open>
  \<open>np.argmax\<close> keeps the first position of the greatest entry: it walks the vector and
  moves only to a strictly greater entry. On an empty vector it raises.
\<close>

fun argmax_loop :: "real list \<Rightarrow> nat \<Rightarrow> nat \<Rightarrow> real \<Rightarrow> nat" where
  "argmax_loop [] i best mp = best"
| "argmax_loop (x # xs) i best mp =
     (if x > mp then argmax_loop xs (i + 1) i x else argmax_loop xs (i + 1) best mp)"

definition np_argmax :: "real list \<Rightarrow> error + nat" where
  "np_argmax xs =
     (case xs of
        [] \<Rightarrow> Inl (ValueError ''attempt to get argmax of an empty sequence'')
      | x # rest \<Rightarrow> Inr (argmax_loop rest 1 0 x))"

text \<open>Python's \<open>max\<close> on a sequence, which raises on an empty one.\<close>

fun max_loop :: "real list \<Rightarrow> real \<Rightarrow> real" where
  "max_loop [] m = m"
| "max_loop (x # xs) m = (if x > m then max_loop xs x else max_loop xs m)"

definition py_max :: "real list \<Rightarrow> error + real" where
  "py_max xs =
     (case xs of
        [] \<Rightarrow> Inl (ValueError ''max() arg is an empty sequence'')
      | x # rest \<Rightarrow> Inr (max_loop rest x))"

text \<open>
  The first lines of the analysis block, from the three inputs to \<open>status\<close> and
  \<open>risk\<close>. A predicted index that is not a key of the inverted label map raises
  \<open>KeyError\<close>.
\<close>

definition risk_of :: "real list \<Rightarrow> error + real" where
  "risk_of proba = (if length proba > 2 then Inr (proba ! 2) else py_max proba)"

definition predict :: "artifacts \<Rightarrow> real \<Rightarrow> real \<Rightarrow> real \<Rightarrow> error + (string \<times> real)" where
  "predict a v t c =
     (let X = [v, t, c];
          X_scaled = scaler_transform a X;
          proba = predict_proba a X_scaled
      in case np_argmax proba of
           Inl e \<Rightarrow> Inl e
         | Inr idx \<Rightarrow>
             (case inv_label_map (meta_label_map a) (int idx) of
                None \<Rightarrow> Inl (KeyError (int idx))
              | Some status \<Rightarrow>
                  (case risk_of proba of
                     Inl e \<Rightarrow> Inl e
                   | Inr risk \<Rightarrow> Inr (status, risk))))"

text \<open>
  The probability that a vector gives to the class of a given name. The specification has
  the classifier's vector aligned to the index order of the label map, so it is the entry
  at the index that the map gives the name, when there is such an entry.
\<close>

definition class_probability :: "(string \<times> int) list \<Rightarrow> real list \<Rightarrow> string \<Rightarrow> real option" where
  "class_probability lm proba name =
     (case map_of lm name of
        None \<Rightarrow> None
      | Some i \<Rightarrow> if 0 \<le> i \<and> nat i < length proba then Some (proba ! nat i) else None)"

subsection \<open>The hypothesis generator\<close>

definition newline :: string where
  "newline = [CHR 0x0A]"

definition warning_sign :: string where
  "warning_sign = [CHR 0xE2, CHR 0x9A, CHR 0xA0]"

definition arrow :: string where
  "arrow = [CHR 0xE2, CHR 0x86, CHR 0x92]"

definition bullet :: string where
  "bullet = [CHR 0xE2, CHR 0x80, CHR 0xA2]"

definition dash :: string where
  "dash = [CHR 0xE2, CHR 0x80, CHR 0x94]"

text \<open>
  What reading an attribute of the service's response can do: the attribute is absent
  (\<open>hasattr\<close> is false), reading it raises, or it has a value.
\<close>

datatype 'a attr = Absent | Raising string | Has 'a

record response =
  resp_text :: "string attr"
  resp_candidates :: "bool attr"
  resp_first_part :: "string option"
  resp_str :: string

text \<open>
  \<open>resp_candidates\<close> holds the truth value of \<open>response.candidates\<close>;
  \<open>resp_first_part\<close> is \<open>response.candidates[0].content.parts[0].text\<close>, with
  \<open>None\<close> when reading it raises; \<open>resp_str\<close> is \<open>str(response)\<close>.

  The import, the configuration and the call either raise (with the text of the
  exception) or give a response.
\<close>

datatype service_result = ServiceError string | Response response

text \<open>
  The environment of a call: the variable \<open>GEMINI_API_KEY\<close>, and the service. The
  prompt is a text made of the five values, so the service is held as a function of them.
\<close>

record environment =
  GEMINI_API_KEY :: "string option"
  gemini :: "real \<Rightarrow> real \<Rightarrow> real \<Rightarrow> string \<Rightarrow> real \<Rightarrow> service_result"

definition missing_key_fallback :: string where
  "missing_key_fallback =
     warning_sign @ '' Gemini API key missing.'' @ newline @
     ''Fallback hypothesis:'' @ newline @
     ''- High vibration '' @ arrow @ '' misalignment or bearing wear'' @ newline @
     ''- High temperature '' @ arrow @ '' lubrication or cooling issue'' @ newline @
     ''- High current '' @ arrow @ '' overload or electrical fault''"

definition error_fallback :: "string \<Rightarrow> string" where
  "error_fallback e =
     warning_sign @ '' Gemini Error: '' @ e @ newline @ newline @
     ''Fallback hypothesis:'' @ newline @
     ''- Inspect bearings, lubrication, cooling, and electrical load.''"

text \<open>
  The part of the \<open>try\<close> block after the call: \<open>Inl e\<close> when reading the response
  raises \<open>e\<close> outside the inner \<open>try\<close>, \<open>Inr\<close> the text returned otherwise.
\<close>

definition read_response :: "response \<Rightarrow> string + string" where
  "read_response r =
     (let rest =
            (case resp_candidates r of
               Raising e \<Rightarrow> Inl e
             | Has True \<Rightarrow>
                 (case resp_first_part r of
                    Some t \<Rightarrow> Inr t
                  | None \<Rightarrow> Inr (resp_str r))
             | _ \<Rightarrow> Inr (resp_str r))
      in case resp_text r of
           Raising e \<Rightarrow> Inl e
         | Has t \<Rightarrow> if t \<noteq> [] then Inr t else rest
         | Absent \<Rightarrow> rest)"

definition generate_hypothesis ::
    "environment \<Rightarrow> real \<Rightarrow> real \<Rightarrow> real \<Rightarrow> string \<Rightarrow> real \<Rightarrow> string" where
  "generate_hypothesis env v t c status risk =
     (let api_key = GEMINI_API_KEY env
      in if api_key = None \<or> api_key = Some [] then missing_key_fallback
         else (case gemini env v t c status risk of
                 ServiceError e \<Rightarrow> error_fallback e
               | Response r \<Rightarrow>
                   (case read_response r of
                      Inl e \<Rightarrow> error_fallback e
                    | Inr text \<Rightarrow> text)))"

subsection \<open>The history\<close>

text \<open>
  A record of the history is a Python \<open>dict\<close>, held as its items in order. A datetime
  is held as its seconds since the epoch.
\<close>

datatype pyval = IntV int | FloatV real | StrV string | Datetime int | NaT

type_synonym history_record = "(string \<times> pyval) list"

record session_state =
  history :: "history_record list"

text \<open>\<open>now\<close> is \<open>int(time.time())\<close> at the call.\<close>

definition add_history ::
    "int \<Rightarrow> session_state \<Rightarrow> real \<Rightarrow> real \<Rightarrow> real \<Rightarrow> string \<Rightarrow> real \<Rightarrow> string \<Rightarrow> session_state" where
  "add_history now st v t c status risk hypothesis =
     st\<lparr>history := history st @
        [[(''timestamp'', IntV now),
          (''vibration'', FloatV v),
          (''temperature'', FloatV t),
          (''current'', FloatV c),
          (''status'', StrV status),
          (''risk'', FloatV risk),
          (''hypothesis'', StrV hypothesis)]]\<rparr>"

definition clear_history :: "session_state \<Rightarrow> session_state" where
  "clear_history st = st\<lparr>history := []\<rparr>"

text \<open>
  A table of the dashboard: the column names, and the rows as items. A table built from
  a list of dicts takes the keys as its columns; every record of the history has the keys
  of the first one.
\<close>

record frame =
  frame_columns :: "string list"
  frame_rows :: "(string \<times> pyval) list list"

definition to_datetime :: "pyval option \<Rightarrow> pyval" where
  "to_datetime x = (case x of Some (IntV n) \<Rightarrow> Datetime n | _ \<Rightarrow> NaT)"

definition history_df :: "session_state \<Rightarrow> frame" where
  "history_df st =
     (case history st of
        [] \<Rightarrow> \<lparr>frame_columns = [''timestamp'', ''vibration'', ''temperature'', ''current'',
                                 ''status'', ''risk'', ''hypothesis''],
               frame_rows = []\<rparr>
      | r # rs \<Rightarrow>
          \<lparr>frame_columns = map fst r @ [''time''],
           frame_rows = map (\<lambda>d. d @ [(''time'', to_datetime (map_of d ''timestamp''))])
                          (history st)\<rparr>)"

text \<open>\<open>df.empty\<close>: one of the two axes has length 0.\<close>

definition frame_empty :: "frame \<Rightarrow> bool" where
  "frame_empty df = (frame_columns df = [] \<or> frame_rows df = [])"

text \<open>
  The download of the sidebar: the table handed to \<open>to_csv\<close>, or \<open>None\<close> when the
  button is not there.
\<close>

definition download_csv :: "frame \<Rightarrow> frame option" where
  "download_csv df = (if \<not> frame_empty df then Some df else None)"

subsection \<open>The analysis block\<close>

definition recommendations :: "real \<Rightarrow> real \<Rightarrow> real \<Rightarrow> string list" where
  "recommendations v t c =
     (let recs = [];
          recs = (if v > 6
                  then recs @ [bullet @ '' Inspect bearings & alignment (high vibration).'']
                  else recs);
          recs = (if t > 70
                  then recs @ [bullet @ '' Check lubrication & cooling system (overheating).'']
                  else recs);
          recs = (if c > 12
                  then recs @ [bullet @ '' Inspect motor load or electrical faults (high current).'']
                  else recs);
          recs = (if recs = []
                  then recs @ [bullet @ '' No immediate issues detected '' @ dash @
                               '' continue monitoring.'']
                  else recs)
      in recs)"

record analysis =
  shown_status :: string
  shown_risk :: real
  shown_hypothesis :: string
  shown_recs :: "string list"

text \<open>
  One run of the block \<open>if analyze:\<close>: what is shown, and the session state after it.
  An exception in the prediction ends the run before anything is appended.
\<close>

definition analyze ::
    "artifacts \<Rightarrow> environment \<Rightarrow> int \<Rightarrow> session_state \<Rightarrow> real \<Rightarrow> real \<Rightarrow> real
     \<Rightarrow> error + (analysis \<times> session_state)" where
  "analyze a env now st v t c =
     (case predict a v t c of
        Inl e \<Rightarrow> Inl e
      | Inr (status, risk) \<Rightarrow>
          (let hypothesis = generate_hypothesis env v t c status risk;
               recs = recommendations v t c;
               st' = add_history now st v t c status risk hypothesis
           in Inr (\<lparr>shown_status = status, shown_risk = risk,
                     shown_hypothesis = hypothesis, shown_recs = recs\<rparr>, st')))"

section \<open>Example inputs\<close>

text \<open>
  A row of a table with the columns \<open>vib\<close>, \<open>temp\<close>, \<open>amps\<close> and \<open>status\<close>:
  the readings 8, 75 and 13, and the given text in the status column.
\<close>

definition labelled_row :: "string \<Rightarrow> string \<Rightarrow> cell" where
  "labelled_row text =
     (\<lambda>name. \<lparr>num = NaN, str = ''nan''\<rparr>)
       (''vib'' := \<lparr>num = Finite 8, str = ''8.0''\<rparr>,
        ''temp'' := \<lparr>num = Finite 75, str = ''75.0''\<rparr>,
        ''amps'' := \<lparr>num = Finite 13, str = ''13.0''\<rparr>,
        ''status'' := \<lparr>num = NaN, str = text\<rparr>)"

text \<open>
  A row of a table with the columns \<open>vib\<close>, \<open>temp\<close> and \<open>amps\<close>, holding
  the three given readings.
\<close>

definition reading_row :: "real \<Rightarrow> real \<Rightarrow> real \<Rightarrow> string \<Rightarrow> cell" where
  "reading_row v t c =
     (\<lambda>name. \<lparr>num = NaN, str = ''nan''\<rparr>)
       (''vib'' := \<lparr>num = Finite v, str = ''''\<rparr>,
        ''temp'' := \<lparr>num = Finite t, str = ''''\<rparr>,
        ''amps'' := \<lparr>num = Finite c, str = ''''\<rparr>)"

text \<open>
  Artifacts whose scaler is the identity and whose classifier answers one fixed vector,
  with a given label map in the metadata.
\<close>

definition example_artifacts :: "real list \<Rightarrow> (string \<times> int) list \<Rightarrow> artifacts" where
  "example_artifacts proba lm =
     \<lparr>scaler_transform = (\<lambda>X. X), predict_proba = (\<lambda>X. proba), meta_label_map = lm\<rparr>"

text \<open>An environment with a key, whose service raises an exception of a given text.\<close>

definition failing_env :: "string \<Rightarrow> environment" where
  "failing_env e =
     \<lparr>GEMINI_API_KEY = Some ''key'', gemini = (\<lambda>v t c status risk. ServiceError e)\<rparr>"

section \<open>Label synthesis\<close>

lemma synth_loop_map: "synth_loop X y = y @ map row_label X"
  by (induction X arbitrary: y) auto

lemma row_score_range: "row_score r \<in> {0, 1, 2, 3}"
  by (simp add: row_score_def Let_def)

text \<open>
  Claim C1. Label synthesis is a function of the row alone, defined on every row: the
  score of a row counts which of \<open>vibration > 6\<close>, \<open>temperature > 70\<close>,
  \<open>current > 12\<close> hold, it lies between 0 and 3, and the label is HEALTHY for the score
  0, WARNING for 1 and CRITICAL for 2 or 3; the labels of a table are the labels of its
  rows, one by one. The rows \<open>(7, 30, 5)\<close>, \<open>(7, 80, 5)\<close> and \<open>(1, 1, 1)\<close> get
  WARNING, CRITICAL and HEALTHY.
\<close>

theorem label_synthesis:
  "row_score r =
     int (length (filter id [gt (vibration r) 6, gt (temperature r) 70, gt (current r) 12]))
   \<and> row_score r \<in> {0, 1, 2, 3}
   \<and> row_label r = (if row_score r = 0 then ''HEALTHY''
                     else if row_score r = 1 then ''WARNING''
                     else ''CRITICAL'')
   \<and> synthesize_labels X = map row_label X
   \<and> row_label \<lparr>vibration = Finite 7, temperature = Finite 30, current = Finite 5\<rparr> = ''WARNING''
   \<and> row_label \<lparr>vibration = Finite 7, temperature = Finite 80, current = Finite 5\<rparr> = ''CRITICAL''
   \<and> row_label \<lparr>vibration = Finite 1, temperature = Finite 1, current = Finite 1\<rparr> = ''HEALTHY''"
  by (simp add: row_score_def row_label_def synthesize_labels_def synth_loop_map Let_def)

section \<open>Column detection: the two passes\<close>

lemma starts_with_iff: "starts_with s t \<longleftrightarrow> (\<exists>after. t = s @ after)"
  by (induction s t rule: starts_with.induct) auto

lemma contains_iff: "contains s t \<longleftrightarrow> (\<exists>before after. t = before @ s @ after)"
proof (induction t)
  case Nil
  then show ?case by auto
next
  case (Cons b t)
  show ?case
  proof
    assume "contains s (b # t)"
    then consider "starts_with s (b # t)" | "contains s t" by auto
    then show "\<exists>before after. b # t = before @ s @ after"
    proof cases
      case 1
      then obtain after where "b # t = s @ after" by (auto simp: starts_with_iff)
      then have "b # t = [] @ s @ after" by simp
      then show ?thesis by blast
    next
      case 2
      then obtain before after where "t = before @ s @ after" using Cons.IH by blast
      then have "b # t = (b # before) @ s @ after" by simp
      then show ?thesis by blast
    qed
  next
    assume "\<exists>before after. b # t = before @ s @ after"
    then obtain before after where e: "b # t = before @ s @ after" by blast
    show "contains s (b # t)"
    proof (cases before)
      case Nil
      with e have "starts_with s (b # t)" by (auto simp: starts_with_iff)
      then show ?thesis by simp
    next
      case (Cons b' before')
      with e have "t = before' @ s @ after" by simp
      then have "contains s t" using Cons.IH by blast
      then show ?thesis by simp
    qed
  qed
qed

lemma scan_cols_find: "scan_cols test c cols = find (test c) cols"
  by (induction cols) auto

lemma scan_cols_None: "scan_cols test c cols = None \<longleftrightarrow> \<not> list_ex (test c) cols"
  by (induction cols) auto

lemma scan_candidates_spec: "scan_candidates test cols candidates = spec_pass test cols candidates"
proof (induction candidates)
  case Nil
  then show ?case by (simp add: spec_pass_def)
next
  case (Cons c cs)
  show ?case
  proof (cases "scan_cols test c cols")
    case None
    then have "\<not> list_ex (test c) cols" by (simp add: scan_cols_None)
    with None Cons.IH show ?thesis by (simp add: spec_pass_def)
  next
    case (Some col)
    then have "list_ex (test c) cols" using scan_cols_None [of test c cols] by auto
    with Some show ?thesis by (simp add: spec_pass_def scan_cols_find)
  qed
qed

text \<open>
  Claim C2. For every list of column names and every ordered list of candidates, the
  detector returns what the two-pass rule prescribes: the first candidate that equals some
  column up to case decides pass 1, and only when no candidate does, the first candidate
  contained in some column up to case decides pass 2; the column returned is the first one,
  in column order, that the deciding candidate matches; without any match the result is
  \<open>None\<close>.
\<close>

theorem detect_column_two_pass:
  "detect_column cols candidates = spec_detect_column cols candidates"
proof -
  have sub: "substring_match = (\<lambda>c col. \<exists>before after. lower col = before @ lower c @ after)"
    by (intro ext) (simp add: substring_match_def contains_iff)
  have ex: "exact_match = (\<lambda>c col. lower c = lower col)"
    by (intro ext) (simp add: exact_match_def)
  show ?thesis
    unfolding detect_column_def spec_detect_column_def scan_candidates_spec sub ex ..
qed

text \<open>
  The theorem at the columns \<open>x_vibration\<close> and \<open>VIB\<close>: the second candidate equals
  the second column up to case, and this wins over the first candidate, which is only
  contained in the first column.
\<close>

theorem detect_column_two_pass_witness:
  "detect_column [''x_vibration'', ''VIB''] COMMON_VIB = Some ''VIB''
   \<and> spec_detect_column [''x_vibration'', ''VIB''] COMMON_VIB = Some ''VIB''
   \<and> detect_column [''x_vibration'', ''Temp_C''] COMMON_VIB = Some ''x_vibration''
   \<and> spec_detect_column [''x_vibration'', ''Temp_C''] COMMON_VIB = Some ''x_vibration''
   \<and> spec_detect_column [''Temp_C''] COMMON_VIB = None"
proof -
  have "detect_column [''x_vibration'', ''VIB''] COMMON_VIB = Some ''VIB''"
       "detect_column [''x_vibration'', ''Temp_C''] COMMON_VIB = Some ''x_vibration''"
       "detect_column [''Temp_C''] COMMON_VIB = None"
    by code_simp+
  then show ?thesis
    using detect_column_two_pass [of "[''x_vibration'', ''VIB'']" COMMON_VIB]
          detect_column_two_pass [of "[''x_vibration'', ''Temp_C'']" COMMON_VIB]
          detect_column_two_pass [of "[''Temp_C'']" COMMON_VIB]
    by simp
qed

section \<open>Loading the table\<close>

lemma load_and_prepare_resolved:
  assumes "detect_column (columns df) COMMON_VIB = Some vc"
      and "detect_column (columns df) COMMON_TEMP = Some tc"
      and "detect_column (columns df) COMMON_CURR = Some cc"
  shows "load_and_prepare median df =
           Inr (fillna_median median
                  (map (\<lambda>r. \<lparr>vibration = num (r vc), temperature = num (r tc),
                               current = num (r cc)\<rparr>) (rows df)),
                case detect_column (columns df) COMMON_LABEL of
                  None \<Rightarrow>
                    map row_label
                      (fillna_median median
                        (map (\<lambda>r. \<lparr>vibration = num (r vc), temperature = num (r tc),
                                     current = num (r cc)\<rparr>) (rows df)))
                | Some lc \<Rightarrow> map (\<lambda>r. replace_synonyms (upper (str (r lc)))) (rows df))"
  using assms
  by (simp add: load_and_prepare_def Let_def synthesize_labels_def synth_loop_map
           split: option.splits)

lemma length_fillna_median: "length (fillna_median median X) = length X"
  by (simp add: fillna_median_def Let_def)

text \<open>
  Claim C4, amended. When one of the vibration, temperature and current fields does not
  resolve, loading fails with a \<open>ValueError\<close> whose message is the same fixed text in
  every case (it lists all three fields, whichever are missing). When all three resolve,
  loading returns a table and a label for every row and raises nothing, whatever the
  detection of a label column gives, a missing label column included.
\<close>

theorem column_gate_fixed_error:
  "(detect_column (columns df) COMMON_VIB = None
      \<or> detect_column (columns df) COMMON_TEMP = None
      \<or> detect_column (columns df) COMMON_CURR = None
     \<longrightarrow> load_and_prepare median df =
           Inl (ValueError ''Could not detect vibration/temp/current columns''))
   \<and> (detect_column (columns df) COMMON_VIB \<noteq> None
      \<and> detect_column (columns df) COMMON_TEMP \<noteq> None
      \<and> detect_column (columns df) COMMON_CURR \<noteq> None
     \<longrightarrow> (\<exists>X y. load_and_prepare median df = Inr (X, y)
                \<and> length X = length (rows df) \<and> length y = length (rows df)))"
  by (auto simp: load_and_prepare_def Let_def fillna_median_def synthesize_labels_def
                 synth_loop_map
           split: option.splits)

text \<open>
  The theorem at two tables: one without a vibration column, which fails, and one with
  the three numeric columns and no label column, which loads.
\<close>

theorem column_gate_fixed_error_witness:
  "detect_column [''temp'', ''amps''] COMMON_VIB = None
   \<and> load_and_prepare (\<lambda>xs. NaN) \<lparr>columns = [''temp'', ''amps''], rows = []\<rparr>
       = Inl (ValueError ''Could not detect vibration/temp/current columns'')
   \<and> detect_column [''vib'', ''temp'', ''amps''] COMMON_LABEL = None
   \<and> (\<exists>X y. load_and_prepare (\<lambda>xs. NaN)
                \<lparr>columns = [''vib'', ''temp'', ''amps''], rows = [labelled_row ''x'']\<rparr>
              = Inr (X, y) \<and> length X = 1 \<and> length y = 1)"
proof -
  let ?bad = "\<lparr>columns = [''temp'', ''amps''], rows = []\<rparr>"
  let ?good = "\<lparr>columns = [''vib'', ''temp'', ''amps''], rows = [labelled_row ''x'']\<rparr>"
  have b: "detect_column (columns ?bad) COMMON_VIB = None"
    by code_simp
  have g: "detect_column (columns ?good) COMMON_VIB \<noteq> None"
          "detect_column (columns ?good) COMMON_TEMP \<noteq> None"
          "detect_column (columns ?good) COMMON_CURR \<noteq> None"
          "detect_column (columns ?good) COMMON_LABEL = None"
    by code_simp+
  from column_gate_fixed_error [of ?bad "\<lambda>xs. NaN"] b
       column_gate_fixed_error [of ?good "\<lambda>xs. NaN"] g
  show ?thesis by simp
qed

text \<open>
  Against claim C4 as stated: a table that lacks only the vibration column and a table
  that lacks only the current column fail with one and the same error, so the error does
  not tell which field is unresolved.
\<close>

theorem column_error_same_for_different_fields:
  "load_and_prepare (\<lambda>xs. NaN) \<lparr>columns = [''temp'', ''amps''], rows = []\<rparr>
     = load_and_prepare (\<lambda>xs. NaN) \<lparr>columns = [''vib'', ''temp''], rows = []\<rparr>
   \<and> load_and_prepare (\<lambda>xs. NaN) \<lparr>columns = [''temp'', ''amps''], rows = []\<rparr>
     = Inl (ValueError ''Could not detect vibration/temp/current columns'')
   \<and> detect_column [''temp'', ''amps''] COMMON_VIB = None
   \<and> detect_column [''temp'', ''amps''] COMMON_CURR = Some ''amps''
   \<and> detect_column [''vib'', ''temp''] COMMON_VIB = Some ''vib''
   \<and> detect_column [''vib'', ''temp''] COMMON_CURR = None"
  by code_simp

section \<open>Labels read from a column\<close>

lemma replace_synonyms_cases:
  "replace_synonyms s =
     (if s = ''OK'' \<or> s = ''GOOD'' then ''HEALTHY''
      else if s = ''BAD'' \<or> s = ''FAIL'' then ''CRITICAL''
      else s)"
  by (simp add: replace_synonyms_def synonyms_def)

lemma label_map_None:
  "map_of label_map s = None \<longleftrightarrow> s \<noteq> ''HEALTHY'' \<and> s \<noteq> ''WARNING'' \<and> s \<noteq> ''CRITICAL''"
  by (simp add: label_map_def)

text \<open>
  Claim C5, amended. When a label column is present (and the three numeric fields
  resolve), every label is the text of its cell put in upper case and then passed through
  the synonym table, which sends OK and GOOD to HEALTHY, BAD and FAIL to CRITICAL and
  leaves every other text as it is. The encoding then looks each label up in the label
  map: a label that is not HEALTHY, WARNING or CRITICAL gets a missing value, and neither
  the loading nor the encoding raises an error for it.
\<close>

theorem label_column_canonicalised:
  assumes "detect_column (columns df) COMMON_VIB \<noteq> None"
      and "detect_column (columns df) COMMON_TEMP \<noteq> None"
      and "detect_column (columns df) COMMON_CURR \<noteq> None"
      and "detect_column (columns df) COMMON_LABEL = Some lc"
  shows "(\<exists>X. load_and_prepare median df =
                Inr (X, map (\<lambda>r. replace_synonyms (upper (str (r lc)))) (rows df))
            \<and> train_prepare median df =
                Inr (X, map (\<lambda>r. map_of label_map (replace_synonyms (upper (str (r lc)))))
                          (rows df)))
         \<and> replace_synonyms s =
             (if s = ''OK'' \<or> s = ''GOOD'' then ''HEALTHY''
              else if s = ''BAD'' \<or> s = ''FAIL'' then ''CRITICAL''
              else s)
         \<and> (map_of label_map s = None
               \<longleftrightarrow> s \<noteq> ''HEALTHY'' \<and> s \<noteq> ''WARNING'' \<and> s \<noteq> ''CRITICAL'')"
proof -
  from assms obtain vc tc cc where
    r: "detect_column (columns df) COMMON_VIB = Some vc"
       "detect_column (columns df) COMMON_TEMP = Some tc"
       "detect_column (columns df) COMMON_CURR = Some cc"
    by auto
  from load_and_prepare_resolved [OF r, of median] assms(4)
  have "\<exists>X. load_and_prepare median df =
                Inr (X, map (\<lambda>r. replace_synonyms (upper (str (r lc)))) (rows df))"
    by simp
  then have "\<exists>X. load_and_prepare median df =
                Inr (X, map (\<lambda>r. replace_synonyms (upper (str (r lc)))) (rows df))
            \<and> train_prepare median df =
                Inr (X, map (\<lambda>r. map_of label_map (replace_synonyms (upper (str (r lc)))))
                          (rows df))"
    by (auto simp: train_prepare_def encode_labels_def)
  then show ?thesis
    by (simp add: replace_synonyms_cases label_map_None)
qed

text \<open>
  The theorem at a table with the status texts \<open>ok\<close>, \<open>Fail\<close>, \<open>warning\<close> and
  \<open>maybe\<close>: they are encoded as 0, 2, 1 and a missing value.
\<close>

theorem label_column_canonicalised_witness:
  "detect_column [''vib'', ''temp'', ''amps'', ''status''] COMMON_LABEL = Some ''status''
   \<and> (\<exists>X. train_prepare (\<lambda>xs. NaN)
              \<lparr>columns = [''vib'', ''temp'', ''amps'', ''status''],
               rows = [labelled_row ''ok'', labelled_row ''Fail'', labelled_row ''warning'',
                       labelled_row ''maybe'']\<rparr>
            = Inr (X, [Some 0, Some 2, Some 1, None]))"
proof -
  let ?df = "\<lparr>columns = [''vib'', ''temp'', ''amps'', ''status''],
              rows = [labelled_row ''ok'', labelled_row ''Fail'', labelled_row ''warning'',
                      labelled_row ''maybe'']\<rparr>"
  have h: "detect_column (columns ?df) COMMON_VIB \<noteq> None"
          "detect_column (columns ?df) COMMON_TEMP \<noteq> None"
          "detect_column (columns ?df) COMMON_CURR \<noteq> None"
          "detect_column (columns ?df) COMMON_LABEL = Some ''status''"
    by code_simp+
  have u: "upper ''ok'' = ''OK''" "upper ''Fail'' = ''FAIL''"
          "upper ''warning'' = ''WARNING''" "upper ''maybe'' = ''MAYBE''"
    by code_simp+
  from label_column_canonicalised [OF h, of "\<lambda>xs. NaN" "''x''"]
  have "\<exists>X. train_prepare (\<lambda>xs. NaN) ?df = Inr (X, [Some 0, Some 2, Some 1, None])"
    by (auto simp: labelled_row_def u replace_synonyms_def synonyms_def label_map_def)
  with h show ?thesis by simp
qed

text \<open>
  Against claim C5 as stated: with the one label \<open>maybe\<close>, which no canonicalisation
  covers, loading and encoding return normally, and the label is encoded as a missing
  value; no unrecognized-label error is raised.
\<close>

theorem unrecognised_label_not_rejected:
  "train_prepare (\<lambda>xs. NaN)
     \<lparr>columns = [''vib'', ''temp'', ''amps'', ''status''], rows = [labelled_row ''maybe'']\<rparr>
   = Inr ([\<lparr>vibration = Finite 8, temperature = Finite 75, current = Finite 13\<rparr>], [None])"
  by code_simp

section \<open>Synthesized labels are encoded\<close>

lemma encode_row_labels:
  "list_all (\<lambda>e. e = Some 0 \<or> e = Some 1 \<or> e = Some 2) (encode_labels (map row_label X))"
  by (induction X) (simp_all add: encode_labels_def row_label_def label_map_def Let_def)

lemma row_labels_canonical:
  "list_all (\<lambda>l. l = ''HEALTHY'' \<or> l = ''WARNING'' \<or> l = ''CRITICAL'') (map row_label X)"
  by (induction X) (simp_all add: row_label_def Let_def)

text \<open>
  Claim C9. On the path without a label column (the three numeric fields resolving), the
  feature table \<open>X\<close> has one row for every row of the file, the labels are the
  synthesized labels of the rows of \<open>X\<close>, one by one, and every one of them is HEALTHY,
  WARNING or CRITICAL. The encoding looks the label of each row up in the label map: the
  encoded labels are, row by row, the indices of the rows' labels, there are as many of
  them as rows, each is 0, 1 or 2, and none is a missing value.
\<close>

theorem synthesized_labels_encode:
  assumes "detect_column (columns df) COMMON_VIB \<noteq> None"
      and "detect_column (columns df) COMMON_TEMP \<noteq> None"
      and "detect_column (columns df) COMMON_CURR \<noteq> None"
      and "detect_column (columns df) COMMON_LABEL = None"
  shows "\<exists>vc tc cc X y.
            detect_column (columns df) COMMON_VIB = Some vc
          \<and> detect_column (columns df) COMMON_TEMP = Some tc
          \<and> detect_column (columns df) COMMON_CURR = Some cc
          \<and> X = fillna_median median
                  (map (\<lambda>r. \<lparr>vibration = num (r vc), temperature = num (r tc),
                               current = num (r cc)\<rparr>) (rows df))
          \<and> y = map row_label X
          \<and> load_and_prepare median df = Inr (X, y)
          \<and> train_prepare median df = Inr (X, encode_labels y)
          \<and> encode_labels y = map (\<lambda>r. map_of label_map (row_label r)) X
          \<and> length (encode_labels y) = length (rows df)
          \<and> length y = length X \<and> length X = length (rows df)
          \<and> list_all (\<lambda>l. l = ''HEALTHY'' \<or> l = ''WARNING'' \<or> l = ''CRITICAL'') y
          \<and> list_all (\<lambda>e. e = Some 0 \<or> e = Some 1 \<or> e = Some 2) (encode_labels y)
          \<and> None \<notin> set (encode_labels y)"
proof -
  from assms obtain vc tc cc where
    r: "detect_column (columns df) COMMON_VIB = Some vc"
       "detect_column (columns df) COMMON_TEMP = Some tc"
       "detect_column (columns df) COMMON_CURR = Some cc"
    by auto
  define X where
    "X = fillna_median median
           (map (\<lambda>r. \<lparr>vibration = num (r vc), temperature = num (r tc),
                        current = num (r cc)\<rparr>) (rows df))"
  have l: "load_and_prepare median df = Inr (X, map row_label X)"
    using load_and_prepare_resolved [OF r, of median] assms(4) by (simp add: X_def)
  have t: "train_prepare median df = Inr (X, encode_labels (map row_label X))"
    by (simp add: train_prepare_def l)
  have n: "length X = length (rows df)"
    by (simp add: X_def length_fillna_median)
  have m: "encode_labels (map row_label X) = map (\<lambda>r. map_of label_map (row_label r)) X"
    by (simp add: encode_labels_def)
  have e: "list_all (\<lambda>e. e = Some 0 \<or> e = Some 1 \<or> e = Some 2)
             (encode_labels (map row_label X))"
    by (rule encode_row_labels)
  then have nn: "None \<notin> set (encode_labels (map row_label X))"
    by (auto simp: list_all_iff)
  have c: "list_all (\<lambda>l. l = ''HEALTHY'' \<or> l = ''WARNING'' \<or> l = ''CRITICAL'') (map row_label X)"
    by (rule row_labels_canonical)
  have len: "length (encode_labels (map row_label X)) = length (rows df)"
    by (simp add: m n)
  show ?thesis
    using r X_def l t n m e nn c len by (intro exI [of _ vc] exI [of _ tc] exI [of _ cc]
        exI [of _ X] exI [of _ "map row_label X"]) simp
qed

text \<open>
  The theorem at a table with the columns \<open>vib\<close>, \<open>temp\<close>, \<open>amps\<close> and the rows
  \<open>(8, 75, 13)\<close>, \<open>(7, 30, 5)\<close>, \<open>(1, 1, 1)\<close> and \<open>(7, 80, 5)\<close>: the labels
  CRITICAL, WARNING, HEALTHY and CRITICAL are encoded as 2, 1, 0 and 2.
\<close>

theorem synthesized_labels_encode_witness:
  "detect_column [''vib'', ''temp'', ''amps''] COMMON_LABEL = None
   \<and> train_prepare (\<lambda>xs. NaN)
        \<lparr>columns = [''vib'', ''temp'', ''amps''],
         rows = [reading_row 8 75 13, reading_row 7 30 5, reading_row 1 1 1,
                 reading_row 7 80 5]\<rparr>
     = Inr ([\<lparr>vibration = Finite 8, temperature = Finite 75, current = Finite 13\<rparr>,
             \<lparr>vibration = Finite 7, temperature = Finite 30, current = Finite 5\<rparr>,
             \<lparr>vibration = Finite 1, temperature = Finite 1, current = Finite 1\<rparr>,
             \<lparr>vibration = Finite 7, temperature = Finite 80, current = Finite 5\<rparr>],
            [Some 2, Some 1, Some 0, Some 2])"
proof -
  let ?df = "\<lparr>columns = [''vib'', ''temp'', ''amps''],
         rows = [reading_row 8 75 13, reading_row 7 30 5, reading_row 1 1 1,
                 reading_row 7 80 5]\<rparr>"
  have h: "detect_column (columns ?df) COMMON_VIB \<noteq> None"
          "detect_column (columns ?df) COMMON_TEMP \<noteq> None"
          "detect_column (columns ?df) COMMON_CURR \<noteq> None"
          "detect_column (columns ?df) COMMON_LABEL = None"
    by code_simp+
  have e: "train_prepare (\<lambda>xs. NaN) ?df
     = Inr ([\<lparr>vibration = Finite 8, temperature = Finite 75, current = Finite 13\<rparr>,
             \<lparr>vibration = Finite 7, temperature = Finite 30, current = Finite 5\<rparr>,
             \<lparr>vibration = Finite 1, temperature = Finite 1, current = Finite 1\<rparr>,
             \<lparr>vibration = Finite 7, temperature = Finite 80, current = Finite 5\<rparr>],
            [Some 2, Some 1, Some 0, Some 2])"
    by code_simp
  from synthesized_labels_encode [OF h, of "\<lambda>xs. NaN"]
  have "\<exists>X y. train_prepare (\<lambda>xs. NaN) ?df = Inr (X, encode_labels y)
          \<and> length (encode_labels y) = length (rows ?df)"
    by blast
  with e h(4) show ?thesis by simp
qed

section \<open>The label map and its inverse\<close>

text \<open>
  Claim C6. The label map that training persists and the map the dashboard inverts from it
  are inverse to each other: the indices 0, 1 and 2 invert to HEALTHY, WARNING and
  CRITICAL, these names map back to 0, 1 and 2, and in general an index inverts to a name
  exactly when the label map sends that name to that index, so a predicted index has one
  status name.
\<close>

theorem label_map_inverse:
  "inv_label_map label_map 0 = Some ''HEALTHY''
   \<and> inv_label_map label_map 1 = Some ''WARNING''
   \<and> inv_label_map label_map 2 = Some ''CRITICAL''
   \<and> map_of label_map ''HEALTHY'' = Some 0
   \<and> map_of label_map ''WARNING'' = Some 1
   \<and> map_of label_map ''CRITICAL'' = Some 2
   \<and> (\<forall>i name. inv_label_map label_map i = Some name \<longleftrightarrow> map_of label_map name = Some i)"
  by (auto simp: inv_label_map_def label_map_def split: if_splits)

section \<open>The prediction\<close>







lemma predict_unfold:
  "predict a v t c =
     (case np_argmax (predict_proba a (scaler_transform a [v, t, c])) of
        Inl e \<Rightarrow> Inl e
      | Inr idx \<Rightarrow>
          (case inv_label_map (meta_label_map a) (int idx) of
             None \<Rightarrow> Inl (KeyError (int idx))
           | Some status \<Rightarrow>
               (case risk_of (predict_proba a (scaler_transform a [v, t, c])) of
                  Inl e \<Rightarrow> Inl e
                | Inr risk \<Rightarrow> Inr (status, risk))))"
  by (simp add: predict_def Let_def)







section \<open>The risk is the third entry\<close>

lemma inv_label_map_member:
  "fold (\<lambda>(k, v) d. d(v \<mapsto> k)) lm d0 i = Some name
   \<Longrightarrow> (name, i) \<in> set lm \<or> d0 i = Some name"
proof (induction lm arbitrary: d0)
  case Nil
  then show ?case by simp
next
  case (Cons kv lm)
  obtain k v where kv: "kv = (k, v)" by (cases kv)
  from Cons.prems have "fold (\<lambda>(k, v) d. d(v \<mapsto> k)) lm (d0(v \<mapsto> k)) i = Some name"
    by (simp only: kv fold_simps prod.case)
  then have "(name, i) \<in> set lm \<or> (d0(v \<mapsto> k)) i = Some name"
    by (rule Cons.IH)
  then show ?case
    by (auto simp: kv split: if_splits)
qed

lemma inv_label_map_in: "inv_label_map lm i = Some name \<Longrightarrow> (name, i) \<in> set lm"
  using inv_label_map_member [of lm Map.empty i name] by (simp add: inv_label_map_def)

lemma inverse_of_other_index:
  assumes "distinct (map fst lm)" and "map_of lm ''CRITICAL'' = Some i" and "i \<noteq> 2"
  shows "inv_label_map lm 2 \<noteq> Some ''CRITICAL''"
proof
  assume "inv_label_map lm 2 = Some ''CRITICAL''"
  then have "(''CRITICAL'', 2) \<in> set lm" by (rule inv_label_map_in)
  with assms(1) have "map_of lm ''CRITICAL'' = Some 2" by simp
  with assms(2,3) show False by simp
qed

lemma critical_probability_iff:
  "(\<forall>p. length p > 2 \<and> list_all (\<lambda>x. 0 \<le> x) p \<and> sum_list p = 1
        \<longrightarrow> class_probability lm p ''CRITICAL'' = Some (p ! 2))
   \<longleftrightarrow> map_of lm ''CRITICAL'' = Some 2"
proof
  assume a: "\<forall>p. length p > 2 \<and> list_all (\<lambda>x. 0 \<le> x) p \<and> sum_list p = 1
                \<longrightarrow> class_probability lm p ''CRITICAL'' = Some (p ! 2)"
  have "class_probability lm [0, 0, 1] ''CRITICAL'' = Some ([0, 0, 1 :: real] ! 2)"
    by (rule a [rule_format]) simp
  then have "class_probability lm [0, 0, 1] ''CRITICAL'' = Some 1" by simp
  then obtain i where i: "map_of lm ''CRITICAL'' = Some i" "0 \<le> i" "nat i < 3"
      "[0, 0, 1 :: real] ! nat i = 1"
    by (auto simp: class_probability_def split: option.splits if_splits)
  from i(3) have "nat i = 0 \<or> nat i = 1 \<or> nat i = 2" by arith
  with i(4) have "nat i = 2" by auto
  with i(1,2) show "map_of lm ''CRITICAL'' = Some 2" by simp
next
  assume "map_of lm ''CRITICAL'' = Some 2"
  then show "\<forall>p. length p > 2 \<and> list_all (\<lambda>x. 0 \<le> x) p \<and> sum_list p = 1
                \<longrightarrow> class_probability lm p ''CRITICAL'' = Some (p ! 2)"
    by (simp add: class_probability_def)
qed

text \<open>
  Claim C10. When the probability vector has more than two entries, the risk is its entry
  at position 2, for every label map in the metadata: whenever the prediction returns, its
  risk is that entry. For a label map \<open>lm\<close>, the entry at position 2 is the probability of
  the class CRITICAL on every probability vector exactly when \<open>lm\<close> gives CRITICAL the
  index 2; when \<open>lm\<close> gives CRITICAL another index, the class that \<open>lm\<close> inverts the
  index 2 to, whose probability the risk is, is not CRITICAL.
\<close>

theorem risk_is_third_entry:
  "(length proba > 2 \<longrightarrow> risk_of proba = Inr (proba ! 2))
   \<and> (predict a v t c = Inr (status, risk)
        \<and> length (predict_proba a (scaler_transform a [v, t, c])) > 2
      \<longrightarrow> risk = predict_proba a (scaler_transform a [v, t, c]) ! 2)
   \<and> ((\<forall>p. length p > 2 \<and> list_all (\<lambda>x. 0 \<le> x) p \<and> sum_list p = 1
            \<longrightarrow> class_probability lm p ''CRITICAL'' = Some (p ! 2))
        \<longleftrightarrow> map_of lm ''CRITICAL'' = Some 2)
   \<and> (distinct (map fst lm) \<and> map_of lm ''CRITICAL'' = Some i \<and> i \<noteq> 2
      \<longrightarrow> inv_label_map lm 2 \<noteq> Some ''CRITICAL'')"
proof (intro conjI)
  show "length proba > 2 \<longrightarrow> risk_of proba = Inr (proba ! 2)"
    by (simp add: risk_of_def)
  show "predict a v t c = Inr (status, risk)
        \<and> length (predict_proba a (scaler_transform a [v, t, c])) > 2
      \<longrightarrow> risk = predict_proba a (scaler_transform a [v, t, c]) ! 2"
    by (auto simp: predict_unfold risk_of_def split: sum.splits option.splits)
  show "(\<forall>p. length p > 2 \<and> list_all (\<lambda>x. 0 \<le> x) p \<and> sum_list p = 1
            \<longrightarrow> class_probability lm p ''CRITICAL'' = Some (p ! 2))
        \<longleftrightarrow> map_of lm ''CRITICAL'' = Some 2"
    by (rule critical_probability_iff)
  show "distinct (map fst lm) \<and> map_of lm ''CRITICAL'' = Some i \<and> i \<noteq> 2
      \<longrightarrow> inv_label_map lm 2 \<noteq> Some ''CRITICAL''"
    using inverse_of_other_index by blast
qed

text \<open>
  The theorem at a label map that gives CRITICAL the index 0 and HEALTHY the index 2, and
  the vector \<open>(0.7, 0.2, 0.1)\<close>: the status is CRITICAL, whose probability is 0.7, and
  the risk is 0.1, the probability of HEALTHY.
\<close>

theorem risk_is_third_entry_witness:
  "distinct (map fst [(''CRITICAL'', 0 :: int), (''WARNING'', 1), (''HEALTHY'', 2)])
   \<and> map_of [(''CRITICAL'', 0 :: int), (''WARNING'', 1), (''HEALTHY'', 2)] ''CRITICAL'' = Some 0
   \<and> predict (example_artifacts [0.7, 0.2, 0.1]
                [(''CRITICAL'', 0), (''WARNING'', 1), (''HEALTHY'', 2)]) 8 75 13
       = Inr (''CRITICAL'', [0.7, 0.2, 0.1] ! 2)
   \<and> [0.7, 0.2, 0.1 :: real] ! 2 = 0.1
   \<and> class_probability [(''CRITICAL'', 0), (''WARNING'', 1), (''HEALTHY'', 2)]
        [0.7, 0.2, 0.1] ''CRITICAL'' = Some 0.7
   \<and> inv_label_map [(''CRITICAL'', 0), (''WARNING'', 1), (''HEALTHY'', 2)] 2 = Some ''HEALTHY''
   \<and> inv_label_map [(''CRITICAL'', 0), (''WARNING'', 1), (''HEALTHY'', 2)] 2
       \<noteq> Some ''CRITICAL''"
proof -
  let ?lm = "[(''CRITICAL'', 0 :: int), (''WARNING'', 1), (''HEALTHY'', 2)]"
  let ?a = "example_artifacts [0.7, 0.2, 0.1] ?lm"
  have d: "distinct (map fst ?lm)" "map_of ?lm ''CRITICAL'' = Some 0" "(0 :: int) \<noteq> 2"
    by simp_all
  have e: "predict ?a 8 75 13 = Inr (''CRITICAL'', 0.1)"
    by (simp add: predict_def example_artifacts_def np_argmax_def inv_label_map_def risk_of_def)
  have l: "length (predict_proba ?a (scaler_transform ?a [8, 75, 13])) > 2"
    by (simp add: example_artifacts_def)
  have cp: "class_probability ?lm [0.7, 0.2, 0.1] ''CRITICAL'' = Some 0.7"
    by (simp add: class_probability_def)
  have i: "inv_label_map ?lm 2 = Some ''HEALTHY''"
    by (simp add: inv_label_map_def)
  from risk_is_third_entry [of "[0.7, 0.2, 0.1]" ?a 8 75 13 "''CRITICAL''" "0.1" ?lm 0]
       d e l cp i
  show ?thesis by simp
qed

section \<open>The hypothesis and the history\<close>

text \<open>
  Claim C7, amended. Without credentials (the variable unset or empty) the generator
  returns one fixed text, which names the three fault categories vibration, temperature
  and current. With credentials, when the import, the configuration, the call or the
  reading of the response raises, it returns another text: the message of the error
  followed by one fixed line of advice. In every case the generator returns a text and
  raises nothing, and whenever the prediction has returned a status and a risk, the
  analysis completes and appends one record, holding that text, to the history.
\<close>

theorem hypothesis_fallbacks:
  "(GEMINI_API_KEY env = None \<or> GEMINI_API_KEY env = Some []
      \<longrightarrow> generate_hypothesis env v t c status risk = missing_key_fallback)
   \<and> (GEMINI_API_KEY env = Some key \<and> key \<noteq> []
        \<and> gemini env v t c status risk = ServiceError e
      \<longrightarrow> generate_hypothesis env v t c status risk = error_fallback e)
   \<and> (GEMINI_API_KEY env = Some key \<and> key \<noteq> []
        \<and> gemini env v t c status risk = Response r \<and> read_response r = Inl e
      \<longrightarrow> generate_hypothesis env v t c status risk = error_fallback e)
   \<and> contains ''vibration'' missing_key_fallback
   \<and> contains ''temperature'' missing_key_fallback
   \<and> contains ''current'' missing_key_fallback
   \<and> (predict a v t c = Inr (status, risk)
      \<longrightarrow> analyze a env now st v t c =
            Inr (\<lparr>shown_status = status, shown_risk = risk,
                  shown_hypothesis = generate_hypothesis env v t c status risk,
                  shown_recs = recommendations v t c\<rparr>,
                 st\<lparr>history := history st @
                   [[(''timestamp'', IntV now), (''vibration'', FloatV v),
                     (''temperature'', FloatV t), (''current'', FloatV c),
                     (''status'', StrV status), (''risk'', FloatV risk),
                     (''hypothesis'',
                      StrV (generate_hypothesis env v t c status risk))]]\<rparr>))"
proof -
  have k: "contains ''vibration'' missing_key_fallback"
          "contains ''temperature'' missing_key_fallback"
          "contains ''current'' missing_key_fallback"
    by code_simp+
  show ?thesis
    by (auto simp: k generate_hypothesis_def Let_def analyze_def add_history_def)
qed

text \<open>
  The theorem without a key, at a service that raises \<open>timeout\<close>, and at a response
  whose text cannot be read: the hypothesis is the fallback of each case, and the analysis
  on an empty history completes and appends its record.
\<close>

theorem hypothesis_fallbacks_witness:
  "generate_hypothesis
      \<lparr>GEMINI_API_KEY = None, gemini = (\<lambda>v t c status risk. ServiceError ''unused'')\<rparr>
      8 75 13 ''CRITICAL'' 0.7
     = missing_key_fallback
   \<and> GEMINI_API_KEY (failing_env ''timeout'') = Some ''key''
   \<and> gemini (failing_env ''timeout'') 8 75 13 ''CRITICAL'' 0.7 = ServiceError ''timeout''
   \<and> generate_hypothesis (failing_env ''timeout'') 8 75 13 ''CRITICAL'' 0.7
       = error_fallback ''timeout''
   \<and> read_response \<lparr>resp_text = Raising ''no valid part'', resp_candidates = Absent,
                      resp_first_part = None, resp_str = ''response''\<rparr>
       = Inl ''no valid part''
   \<and> generate_hypothesis
        \<lparr>GEMINI_API_KEY = Some ''key'',
         gemini = (\<lambda>v t c status risk.
                     Response \<lparr>resp_text = Raising ''no valid part'',
                               resp_candidates = Absent, resp_first_part = None,
                               resp_str = ''response''\<rparr>)\<rparr>
        8 75 13 ''CRITICAL'' 0.7
       = error_fallback ''no valid part''
   \<and> predict (example_artifacts [0.2, 0.1, 0.7] label_map) 8 75 13 = Inr (''CRITICAL'', 0.7)
   \<and> analyze (example_artifacts [0.2, 0.1, 0.7] label_map) (failing_env ''timeout'')
        1700000000 \<lparr>history = []\<rparr> 8 75 13
       = Inr (\<lparr>shown_status = ''CRITICAL'', shown_risk = 0.7,
               shown_hypothesis = error_fallback ''timeout'',
               shown_recs = recommendations 8 75 13\<rparr>,
              \<lparr>history =
                 [[(''timestamp'', IntV 1700000000), (''vibration'', FloatV 8),
                   (''temperature'', FloatV 75), (''current'', FloatV 13),
                   (''status'', StrV ''CRITICAL''), (''risk'', FloatV 0.7),
                   (''hypothesis'', StrV (error_fallback ''timeout''))]]\<rparr>)"
proof -
  let ?a = "example_artifacts [0.2, 0.1, 0.7] label_map"
  let ?env = "failing_env ''timeout''"
  let ?none = "\<lparr>GEMINI_API_KEY = None,
                 gemini = (\<lambda>v t c status risk. ServiceError ''unused'')\<rparr>"
  let ?r = "\<lparr>resp_text = Raising ''no valid part'', resp_candidates = Absent,
              resp_first_part = None, resp_str = ''response''\<rparr>"
  let ?resp = "\<lparr>GEMINI_API_KEY = Some ''key'',
                 gemini = (\<lambda>v t c status risk. Response ?r)\<rparr>"
  have k: "GEMINI_API_KEY ?env = Some ''key''" "''key'' \<noteq> []"
          "gemini ?env 8 75 13 ''CRITICAL'' 0.7 = ServiceError ''timeout''"
    by (simp_all add: failing_env_def)
  have rr: "read_response ?r = Inl ''no valid part''"
    by (simp add: read_response_def)
  have e: "predict ?a 8 75 13 = Inr (''CRITICAL'', 0.7)"
    by (simp add: predict_def example_artifacts_def np_argmax_def inv_label_map_def
          label_map_def risk_of_def)
  from hypothesis_fallbacks [of ?none 8 75 13 "''CRITICAL''" "0.7" "''key''" "''unused''"
         ?r ?a 1700000000 "\<lparr>history = []\<rparr>"]
       hypothesis_fallbacks [of ?env 8 75 13 "''CRITICAL''" "0.7" "''key''" "''timeout''"
         ?r ?a 1700000000 "\<lparr>history = []\<rparr>"]
       hypothesis_fallbacks [of ?resp 8 75 13 "''CRITICAL''" "0.7" "''key''"
         "''no valid part''" ?r ?a 1700000000 "\<lparr>history = []\<rparr>"]
       k rr e
  show ?thesis by simp
qed

text \<open>
  Against claim C7 as stated: when the service raises, the text returned is not the fixed
  fallback of the missing key, it changes with the error, and it does not name the
  vibration category.
\<close>

theorem error_fallback_not_fixed:
  "generate_hypothesis (failing_env ''timeout'') 8 75 13 ''CRITICAL'' 0.7
       \<noteq> missing_key_fallback
   \<and> generate_hypothesis (failing_env ''timeout'') 8 75 13 ''CRITICAL'' 0.7
       \<noteq> generate_hypothesis (failing_env ''quota'') 8 75 13 ''CRITICAL'' 0.7
   \<and> \<not> contains ''vibration''
         (generate_hypothesis (failing_env ''timeout'') 8 75 13 ''CRITICAL'' 0.7)"
proof -
  have g: "generate_hypothesis (failing_env e) 8 75 13 ''CRITICAL'' 0.7 = error_fallback e"
    for e
    by (simp add: generate_hypothesis_def failing_env_def)
  have a: "error_fallback ''timeout'' \<noteq> missing_key_fallback" by code_simp
  have b: "error_fallback ''timeout'' \<noteq> error_fallback ''quota''" by code_simp
  have c: "\<not> contains ''vibration'' (error_fallback ''timeout'')" by code_simp
  show ?thesis by (simp add: g a b c)
qed

text \<open>
  Claim C8, amended. Clearing the history makes the record sequence empty, and the table
  built from the cleared history has exactly the columns timestamp, vibration,
  temperature, current, status, risk, hypothesis and no rows. The download is offered
  only for a table that is not empty, so for the cleared history there is no export.
\<close>

theorem clear_history_empty_table:
  "history (clear_history st) = []
   \<and> frame_columns (history_df (clear_history st)) =
        [''timestamp'', ''vibration'', ''temperature'', ''current'', ''status'', ''risk'',
         ''hypothesis'']
   \<and> frame_rows (history_df (clear_history st)) = []
   \<and> download_csv (history_df (clear_history st)) = None"
  by (simp add: clear_history_def history_df_def download_csv_def frame_empty_def)

text \<open>
  Against claim C8 as stated: on the empty history the download does not hand out the
  table of the seven columns without rows; it hands out nothing.
\<close>

theorem empty_history_no_export:
  "download_csv (history_df \<lparr>history = []\<rparr>) \<noteq>
     Some \<lparr>frame_columns = [''timestamp'', ''vibration'', ''temperature'', ''current'',
                             ''status'', ''risk'', ''hypothesis''],
           frame_rows = []\<rparr>
   \<and> download_csv (history_df \<lparr>history = []\<rparr>) = None"
  by (simp add: history_df_def download_csv_def frame_empty_def)

end
